theory Spec2Isabelle
  imports Complex_Main "HOL-Library.AList" "HOL-Library.Word"
begin

section \<open>sound-play: playing a sound through an external player process\<close>

text \<open>
  The repository holds three generations of one small module.
  \<^item> The original CommonJS module (first part of \<^verbatim>\<open>index.js\<close>): \<^verbatim>\<open>play\<close> builds one
    shell command string and awaits \<^verbatim>\<open>exec\<close>. Its definitions carry the prefix
    \<open>legacy_\<close> where a later generation reuses the name.
  \<^item> The spawn-based module (\<^verbatim>\<open>audio-player.ts\<close> and the second part of \<^verbatim>\<open>index.js\<close>):
    \<^verbatim>\<open>play\<close> spawns the player, records the child under a random id in the map
    \<^verbatim>\<open>activeChildren\<close> and returns the id; \<^verbatim>\<open>stop\<close> and \<^verbatim>\<open>stopAll\<close> kill recorded children.
  \<^item> The compiled later version of \<^verbatim>\<open>audio-player\<close>, whose \<^verbatim>\<open>play\<close> returns the id together
    with a promise \<^verbatim>\<open>finished\<close>; it is \<open>play_finished\<close> below.

  What the module receives from its runtime is a parameter of the model: the platform
  name, \<^verbatim>\<open>path.resolve\<close>, the bytes \<^verbatim>\<open>crypto.randomBytes(4)\<close> returns, the result of
  \<^verbatim>\<open>exec\<close>, the answer of the operating system to \<^verbatim>\<open>spawn\<close>, and the events a child process
  emits. What a call throws is a value: a function that can throw returns a sum, with the
  error on the left.
\<close>

subsection \<open>Characters that cannot stand in a string literal\<close>

definition sq :: char where
  "sq = CHR 0x27"

definition dq :: char where
  "dq = CHR 0x22"

subsection \<open>Numbers and their conversion to text\<close>

text \<open>
  A volume is a JavaScript number: a double that is finite, or one of the three values
  \<^verbatim>\<open>NaN\<close>, \<^verbatim>\<open>Infinity\<close> and \<^verbatim>\<open>-Infinity\<close>. \<open>Finite x\<close> stands for the double whose value is the
  real \<open>x\<close>; the two zeros of the doubles are both \<open>Finite 0\<close>, which the module cannot
  tell apart (both print as \<^verbatim>\<open>0\<close>).

  \<open>times_2\<close> is \<^verbatim>\<open>volume * 2\<close>. Doubling a finite double is exact, unless its magnitude is
  \<open>2\<^bsup>1023\<^esup>\<close> or more: then the product overflows to an infinity. \<open>Math_min\<close> is
  \<^verbatim>\<open>Math.min\<close> of two numbers.
\<close>

datatype number = NaN | PosInfinity | NegInfinity | Finite real

fun times_2 :: "number \<Rightarrow> number" where
  "times_2 NaN = NaN"
| "times_2 PosInfinity = PosInfinity"
| "times_2 NegInfinity = NegInfinity"
| "times_2 (Finite x) =
     (if 2 ^ 1023 \<le> x then PosInfinity
      else if x \<le> - (2 ^ 1023) then NegInfinity
      else Finite (x * 2))"

fun Math_min :: "number \<Rightarrow> number \<Rightarrow> number" where
  "Math_min NaN y = NaN"
| "Math_min x NaN = NaN"
| "Math_min NegInfinity y = NegInfinity"
| "Math_min x NegInfinity = NegInfinity"
| "Math_min PosInfinity y = y"
| "Math_min x PosInfinity = x"
| "Math_min (Finite a) (Finite b) = Finite (min a b)"

text \<open>
  \<^verbatim>\<open>String(x)\<close> and \<^verbatim>\<open>${x}\<close> both apply the language's number-to-string conversion. It
  names the three special values. For a finite value it writes the shortest decimal
  digits that read back as the same double. For an integer of magnitude up to \<open>2\<^bsup>53\<^esup>\<close>
  these are all the digits of the integer, since below that bound the doubles next to an
  integer are at most 1 away; this case is written out here. For every other finite
  value the text is the runtime's, which the model takes as the parameter \<open>fmt\<close>.
\<close>

fun decimal :: "nat \<Rightarrow> string" where
  "decimal n =
     (if n < 10 then [''0123456789'' ! n]
      else decimal (n div 10) @ [''0123456789'' ! (n mod 10)])"

declare decimal.simps [simp del]

fun Number_toString :: "(real \<Rightarrow> string) \<Rightarrow> number \<Rightarrow> string" where
  "Number_toString fmt NaN = ''NaN''"
| "Number_toString fmt PosInfinity = ''Infinity''"
| "Number_toString fmt NegInfinity = ''-Infinity''"
| "Number_toString fmt (Finite x) =
     (if x = of_int \<lfloor>x\<rfloor> \<and> \<bar>x\<bar> \<le> 2 ^ 53
      then (if x < 0 then ''-'' else []) @ decimal (nat \<bar>\<lfloor>x\<rfloor>\<bar>)
      else fmt x)"

subsection \<open>The host\<close>

text \<open>
  \<open>platform\<close> is \<^verbatim>\<open>process.platform\<close>, \<open>path_resolve\<close> is \<^verbatim>\<open>path.resolve\<close> (it depends on the
  working directory of the process) and \<open>number_fmt\<close> is the text of the finite numbers
  whose text is not written out above. \<open>spawn_errno\<close> is the operating system's answer to
  an attempt to start a command, where that answer is an error which \<^verbatim>\<open>spawn\<close> does not
  defer to the child's \<^verbatim>\<open>error\<close> event (any error but \<^verbatim>\<open>EACCES\<close>, \<^verbatim>\<open>EAGAIN\<close>, \<^verbatim>\<open>EMFILE\<close>,
  \<^verbatim>\<open>ENFILE\<close> and \<^verbatim>\<open>ENOENT\<close>).
\<close>

record host =
  platform :: string
  path_resolve :: "string \<Rightarrow> string"
  number_fmt :: "real \<Rightarrow> string"
  spawn_errno :: "string \<Rightarrow> string list \<Rightarrow> string option"

text \<open>What a call of the module can throw.\<close>

datatype error = ERR_INVALID_ARG_VALUE | ErrnoException string | TypeError

subsection \<open>Identifiers\<close>

text \<open>
  \<^verbatim>\<open>makeId\<close> is \<^verbatim>\<open>crypto.randomBytes(4).toString('hex')\<close>. The four bytes the random source
  returns on this call are the argument.
\<close>

type_synonym PlaybackId = string

type_synonym bytes4 = "8 word \<times> 8 word \<times> 8 word \<times> 8 word"

definition hex_digit :: "nat \<Rightarrow> char" where
  "hex_digit n = ''0123456789abcdef'' ! n"

definition hex_byte :: "8 word \<Rightarrow> string" where
  "hex_byte b = [hex_digit (unat b div 16), hex_digit (unat b mod 16)]"

definition toString_hex :: "8 word list \<Rightarrow> string" where
  "toString_hex bs = concat (map hex_byte bs)"

definition randomBytes4 :: "bytes4 \<Rightarrow> 8 word list" where
  "randomBytes4 rnd = (case rnd of (b0, b1, b2, b3) \<Rightarrow> [b0, b1, b2, b3])"

definition makeId :: "bytes4 \<Rightarrow> PlaybackId" where
  "makeId rnd = toString_hex (randomBytes4 rnd)"

subsection \<open>Command builders of the spawn-based module\<close>

definition macPlayCommand :: "(real \<Rightarrow> string) \<Rightarrow> string \<Rightarrow> number \<Rightarrow> string list" where
  "macPlayCommand fmt filePath volume =
     [''afplay'', filePath, ''-v'', Number_toString fmt volume]"

text \<open>\<^verbatim>\<open>filePath.replace(/'/g, "''")\<close>: every single quote becomes two.\<close>

definition replace_quotes :: "string \<Rightarrow> string" where
  "replace_quotes s = concat (map (\<lambda>c. if c = sq then [sq, sq] else [c]) s)"

definition script_head :: string where
  "script_head =
     ''\<newline>Add-Type -AssemblyName presentationCore;'' @
     ''\<newline>$player = New-Object system.windows.media.mediaplayer;'' @
     ''\<newline>$player.open('' @ [sq]"

definition script_tail :: "string \<Rightarrow> string" where
  "script_tail vol =
     [sq] @ '');'' @
     ''\<newline>$player.Volume = '' @ vol @ '';'' @
     ''\<newline>$player.Play();'' @
     ''\<newline># Keep the process alive until the media finishes'' @
     ''\<newline>Start-Sleep -s $player.NaturalDuration.TimeSpan.TotalSeconds;'' @
     ''\<newline>''"

definition windowsPowerShellScript :: "(real \<Rightarrow> string) \<Rightarrow> string \<Rightarrow> number \<Rightarrow> string" where
  "windowsPowerShellScript fmt filePath volume =
     script_head @ replace_quotes filePath @ script_tail (Number_toString fmt volume)"

definition windowsPlayCommand :: "(real \<Rightarrow> string) \<Rightarrow> string \<Rightarrow> number \<Rightarrow> string list" where
  "windowsPlayCommand fmt filePath volume =
     [''powershell'', ''-NoProfile'', ''-Command'', windowsPowerShellScript fmt filePath volume]"

subsection \<open>Command builders of the original module\<close>

definition legacy_macPlayCommand :: "(real \<Rightarrow> string) \<Rightarrow> string \<Rightarrow> number \<Rightarrow> number \<Rightarrow> string" where
  "legacy_macPlayCommand fmt path volume rate =
     ''afplay '' @ [dq] @ path @ [dq] @ '' -v '' @ Number_toString fmt volume @
     '' -r '' @ Number_toString fmt rate"

definition addPresentationCore :: string where
  "addPresentationCore = ''Add-Type -AssemblyName presentationCore;''"

definition createMediaPlayer :: string where
  "createMediaPlayer = ''$player = New-Object system.windows.media.mediaplayer;''"

definition loadAudioFile :: "string \<Rightarrow> string" where
  "loadAudioFile path = ''$player.open('' @ [sq] @ path @ [sq] @ '');''"

definition playAudio :: string where
  "playAudio = ''$player.Play();''"

definition stopAudio :: string where
  "stopAudio =
     ''Start-Sleep 1; Start-Sleep -s $player.NaturalDuration.TimeSpan.TotalSeconds;Exit;''"

definition windowPlayCommand :: "(real \<Rightarrow> string) \<Rightarrow> string \<Rightarrow> number \<Rightarrow> string" where
  "windowPlayCommand fmt path volume =
     ''powershell -c '' @ addPresentationCore @ '' '' @ createMediaPlayer @ '' '' @
     loadAudioFile path @ '' $player.Volume = '' @ Number_toString fmt volume @ ''; '' @
     playAudio @ '' '' @ stopAudio"

subsection \<open>The original \<^verbatim>\<open>play\<close>\<close>



definition legacy_playCommand :: "host \<Rightarrow> string \<Rightarrow> number option \<Rightarrow> number option \<Rightarrow> string" where
  "legacy_playCommand h path vol rt =
     (let volume = (case vol of None \<Rightarrow> Finite (1 / 2) | Some v \<Rightarrow> v);
          rate = (case rt of None \<Rightarrow> Finite 1 | Some r \<Rightarrow> r);
          volumeAdjustedByOS =
            (if platform h = ''darwin'' then Math_min (Finite 2) (times_2 volume) else volume)
      in if platform h = ''darwin''
         then legacy_macPlayCommand (number_fmt h) path volumeAdjustedByOS rate
         else windowPlayCommand (number_fmt h) path volumeAdjustedByOS)"


subsection \<open>The state of the spawn-based module and of its runtime\<close>

text \<open>
  \<^verbatim>\<open>activeChildren\<close> is a JavaScript \<^verbatim>\<open>Map\<close>: it keeps its keys in insertion order,
  \<^verbatim>\<open>set\<close> on a key that is present replaces the value in place, and \<^verbatim>\<open>keys()\<close> lists them in
  that order. It is an association list, with \<^const>\<open>AList.update\<close> for \<^verbatim>\<open>set\<close>,
  \<^const>\<open>AList.delete\<close> for \<^verbatim>\<open>delete\<close> and \<^const>\<open>map_of\<close> for \<^verbatim>\<open>get\<close>; a \<^verbatim>\<open>Map\<close> never holds a key
  twice, which is \<open>registry_ok\<close>.

  The rest of the state is the runtime's: the processes \<^verbatim>\<open>spawn\<close> has created (a child
  handle is the index of its command in \<open>spawned\<close>), the children \<^verbatim>\<open>kill()\<close> was called on,
  in order, the one-shot listeners registered with \<^verbatim>\<open>child.once\<close>, the promises created
  and, in \<open>settled\<close>, the promises in the order they were fulfilled. (The second module
  of \<^verbatim>\<open>index.js\<close> registers the same two closures with \<^verbatim>\<open>child.on\<close>. Its \<^verbatim>\<open>stop\<close> is that of
  \<^verbatim>\<open>audio-player.ts\<close>; its \<^verbatim>\<open>stopAll\<close> is not, and is \<open>index_stopAll\<close> below.)
\<close>

type_synonym child = nat

datatype event = Exit | Error

datatype promise_state = Pending | Fulfilled | Rejected

text \<open>
  The two closures \<^verbatim>\<open>cleanup\<close>: of \<^verbatim>\<open>audio-player.ts\<close>, which deletes the id it captured, and
  of the later version, which deletes the id and calls \<^verbatim>\<open>resolveFinished\<close> of the promise it
  captured.
\<close>

datatype callback = Cleanup PlaybackId | CleanupResolve PlaybackId nat

record world =
  activeChildren :: "(PlaybackId \<times> child) list"
  spawned :: "(string \<times> string list) list"
  killed :: "child list"
  listeners :: "(child \<times> event \<times> callback) list"
  promises :: "promise_state list"
  settled :: "nat list"

definition init :: world where
  "init = \<lparr>activeChildren = [], spawned = [], killed = [], listeners = [],
            promises = [], settled = []\<rparr>"

definition registry_ok :: "world \<Rightarrow> bool" where
  "registry_ok w = distinct (map fst (activeChildren w))"

definition Map_keys :: "world \<Rightarrow> PlaybackId list" where
  "Map_keys w = map fst (activeChildren w)"

text \<open>
  \<^verbatim>\<open>spawn(cmd, args, ...)\<close> throws at once in two cases: when the command or an argument
  holds a NUL character (the runtime refuses such a string), and when the operating
  system answers the attempt with an error that is not deferred. Otherwise it returns a
  new child handle at once; a command that cannot be started for one of the deferred
  reasons, a missing executable among them, is reported later, by the child's \<^verbatim>\<open>error\<close>
  event. \<open>spawn_throws\<close> is what \<^verbatim>\<open>spawn\<close> throws for a command, if anything.
\<close>

definition has_NUL :: "string \<Rightarrow> bool" where
  "has_NUL s = (CHR 0x00 \<in> set s)"

definition spawn_throws :: "host \<Rightarrow> string \<Rightarrow> string list \<Rightarrow> error option" where
  "spawn_throws h cmd args =
     (if has_NUL cmd \<or> list_ex has_NUL args then Some ERR_INVALID_ARG_VALUE
      else map_option ErrnoException (spawn_errno h cmd args))"

definition spawn :: "host \<Rightarrow> string \<Rightarrow> string list \<Rightarrow> world \<Rightarrow> error + child \<times> world" where
  "spawn h cmd args w =
     (case spawn_throws h cmd args of
        Some e \<Rightarrow> Inl e
      | None \<Rightarrow> Inr (length (spawned w), w\<lparr>spawned := spawned w @ [(cmd, args)]\<rparr>))"

definition kill :: "child \<Rightarrow> world \<Rightarrow> world" where
  "kill c w = w\<lparr>killed := killed w @ [c]\<rparr>"

definition once :: "child \<Rightarrow> event \<Rightarrow> callback \<Rightarrow> world \<Rightarrow> world" where
  "once c ev cb w = w\<lparr>listeners := listeners w @ [(c, ev, cb)]\<rparr>"

definition new_Promise :: "world \<Rightarrow> nat \<times> world" where
  "new_Promise w = (length (promises w), w\<lparr>promises := promises w @ [Pending]\<rparr>)"

text \<open>The resolving function of a promise: it fulfils a pending promise and does nothing to a settled one.\<close>

definition resolveFinished :: "nat \<Rightarrow> world \<Rightarrow> world" where
  "resolveFinished p w =
     (if p < length (promises w) \<and> promises w ! p = Pending
      then w\<lparr>promises := (promises w)[p := Fulfilled], settled := settled w @ [p]\<rparr>
      else w)"

fun call :: "callback \<Rightarrow> world \<Rightarrow> world" where
  "call (Cleanup pid) w = w\<lparr>activeChildren := AList.delete pid (activeChildren w)\<rparr>"
| "call (CleanupResolve pid p) w =
     resolveFinished p (w\<lparr>activeChildren := AList.delete pid (activeChildren w)\<rparr>)"

text \<open>
  The child \<open>c\<close> emits the event \<open>ev\<close>: its one-shot listeners for that event are removed
  and called in the order of their registration.
\<close>

definition fired :: "child \<Rightarrow> event \<Rightarrow> world \<Rightarrow> callback list" where
  "fired c ev w = map (\<lambda>l. snd (snd l)) (filter (\<lambda>l. fst l = c \<and> fst (snd l) = ev) (listeners w))"

definition emit :: "child \<Rightarrow> event \<Rightarrow> world \<Rightarrow> world" where
  "emit c ev w =
     fold call (fired c ev w)
       (w\<lparr>listeners := filter (\<lambda>l. \<not> (fst l = c \<and> fst (snd l) = ev)) (listeners w)\<rparr>)"

subsection \<open>\<^verbatim>\<open>play\<close>, \<^verbatim>\<open>stop\<close> and \<^verbatim>\<open>stopAll\<close>\<close>

definition default_volume :: "number option \<Rightarrow> number" where
  "default_volume vol = (case vol of None \<Rightarrow> Finite (1 / 2) | Some v \<Rightarrow> v)"

definition volForOs :: "host \<Rightarrow> number \<Rightarrow> number" where
  "volForOs h volume =
     (if platform h = ''darwin'' then Math_min (Finite 2) (times_2 volume) else volume)"

definition command :: "host \<Rightarrow> string \<Rightarrow> number \<Rightarrow> string list" where
  "command h filePath volume =
     (let absolutePath = path_resolve h filePath
      in if platform h = ''darwin''
         then macPlayCommand (number_fmt h) absolutePath (volForOs h volume)
         else windowsPlayCommand (number_fmt h) absolutePath (volForOs h volume))"

text \<open>
  \<^verbatim>\<open>play\<close> of \<^verbatim>\<open>audio-player.ts\<close>. It calls \<^verbatim>\<open>spawn\<close> outside any \<^verbatim>\<open>try\<close>, before it makes the id:
  what \<^verbatim>\<open>spawn\<close> throws leaves \<^verbatim>\<open>play\<close> as it is, and nothing has been registered then.
\<close>

definition play ::
    "host \<Rightarrow> bytes4 \<Rightarrow> string \<Rightarrow> number option \<Rightarrow> world \<Rightarrow> error + PlaybackId \<times> world" where
  "play h rnd filePath vol w =
     (let cmdline = command h filePath (default_volume vol)
      in case spawn h (hd cmdline) (tl cmdline) w of
           Inl e \<Rightarrow> Inl e
         | Inr (child, w1) \<Rightarrow>
             (let pid = makeId rnd;
                  w2 = w1\<lparr>activeChildren := AList.update pid child (activeChildren w1)\<rparr>;
                  w3 = once child Exit (Cleanup pid) w2;
                  w4 = once child Error (Cleanup pid) w3
              in Inr (pid, w4)))"

text \<open>\<^verbatim>\<open>play\<close> of the later version: the result is the id and the promise \<^verbatim>\<open>finished\<close>.\<close>

definition play_finished ::
    "host \<Rightarrow> bytes4 \<Rightarrow> string \<Rightarrow> number option \<Rightarrow> world \<Rightarrow> error + (PlaybackId \<times> nat) \<times> world" where
  "play_finished h rnd filePath vol w =
     (let cmdline = command h filePath (default_volume vol)
      in case spawn h (hd cmdline) (tl cmdline) w of
           Inl e \<Rightarrow> Inl e
         | Inr (child, w1) \<Rightarrow>
             (let pid = makeId rnd;
                  w2 = w1\<lparr>activeChildren := AList.update pid child (activeChildren w1)\<rparr>;
                  (finished, w3) = new_Promise w2;
                  w4 = once child Exit (CleanupResolve pid finished) w3;
                  w5 = once child Error (CleanupResolve pid finished) w4
              in Inr ((pid, finished), w5)))"

text \<open>What \<^verbatim>\<open>play\<close> throws for a path and a volume, if anything: what \<^verbatim>\<open>spawn\<close> throws for its command.\<close>

definition play_throws :: "host \<Rightarrow> string \<Rightarrow> number option \<Rightarrow> error option" where
  "play_throws h filePath vol =
     spawn_throws h (hd (command h filePath (default_volume vol)))
       (tl (command h filePath (default_volume vol)))"

definition stop :: "PlaybackId \<Rightarrow> world \<Rightarrow> bool \<times> world" where
  "stop pid w =
     (case map_of (activeChildren w) pid of
        None \<Rightarrow> (False, w)
      | Some child \<Rightarrow>
          (True, (kill child w)\<lparr>activeChildren := AList.delete pid (activeChildren w)\<rparr>))"

text \<open>
  \<^verbatim>\<open>stopAll\<close> of \<^verbatim>\<open>audio-player.ts\<close> and of its later version: the loop over the array
  \<^verbatim>\<open>Array.from(activeChildren.keys())\<close> calls the function \<^verbatim>\<open>stop\<close> of the module.
\<close>

fun stop_each :: "PlaybackId list \<Rightarrow> world \<Rightarrow> world" where
  "stop_each [] w = w"
| "stop_each (pid # ids) w = stop_each ids (snd (stop pid w))"

definition stopAll :: "world \<Rightarrow> world" where
  "stopAll w = stop_each (Map_keys w) w"

text \<open>What the successive calls of \<^verbatim>\<open>stop\<close> in that loop return (the loop drops the values).\<close>

fun stop_results :: "PlaybackId list \<Rightarrow> world \<Rightarrow> bool list" where
  "stop_results [] w = []"
| "stop_results (pid # ids) w = fst (stop pid w) # stop_results ids (snd (stop pid w))"

text \<open>
  \<^verbatim>\<open>stopAll\<close> of the second module of \<^verbatim>\<open>index.js\<close> is a method of the exported object, and its
  loop calls \<^verbatim>\<open>this.stop(id)\<close>. What \<^verbatim>\<open>this\<close> is depends on the call: the exported object when
  the call is \<^verbatim>\<open>player.stopAll()\<close>, and a value without a function \<^verbatim>\<open>stop\<close> when the function
  is called on its own, as after \<^verbatim>\<open>const { stopAll } = require(...)\<close> or when it is passed as
  a callback. Then the first \<^verbatim>\<open>this.stop(id)\<close> throws a \<^verbatim>\<open>TypeError\<close>.
\<close>

datatype receiver = Exports | NoStop

fun this_stop_each :: "receiver \<Rightarrow> PlaybackId list \<Rightarrow> world \<Rightarrow> error + world" where
  "this_stop_each this [] w = Inr w"
| "this_stop_each Exports (pid # ids) w = this_stop_each Exports ids (snd (stop pid w))"
| "this_stop_each NoStop (pid # ids) w = Inl TypeError"

definition index_stopAll :: "receiver \<Rightarrow> world \<Rightarrow> error + world" where
  "index_stopAll this w = this_stop_each this (Map_keys w) w"

subsection \<open>Runs\<close>

text \<open>
  What can happen to the module of \<^verbatim>\<open>audio-player.ts\<close>, one after the other: calls of its
  functions by the program, and events of the children delivered by the event loop. A
  call of \<^verbatim>\<open>play\<close> that throws leaves the state as it was.
\<close>

datatype action =
    Play bytes4 string "number option"
  | PlayFinished bytes4 string "number option"
  | Stop PlaybackId
  | StopAll
  | Emit child event

fun step :: "host \<Rightarrow> action \<Rightarrow> world \<Rightarrow> world" where
  "step h (Play rnd filePath vol) w =
     (case play h rnd filePath vol w of Inl e \<Rightarrow> w | Inr (pid, w') \<Rightarrow> w')"
| "step h (PlayFinished rnd filePath vol) w =
     (case play_finished h rnd filePath vol w of Inl e \<Rightarrow> w | Inr (res, w') \<Rightarrow> w')"
| "step h (Stop pid) w = snd (stop pid w)"
| "step h StopAll w = stopAll w"
| "step h (Emit c ev) w = emit c ev w"

definition run :: "host \<Rightarrow> action list \<Rightarrow> world \<Rightarrow> world" where
  "run h acts w = fold (step h) acts w"

text \<open>The id a call of \<^verbatim>\<open>play\<close> puts into the registry when it returns.\<close>

fun registers :: "action \<Rightarrow> PlaybackId option" where
  "registers (Play rnd filePath vol) = Some (makeId rnd)"
| "registers (PlayFinished rnd filePath vol) = Some (makeId rnd)"
| "registers a = None"

subsection \<open>Reading a single-quoted literal of the script\<close>

text \<open>
  The scripting host reads the text after an opening single quote up to the first single
  quote that is not followed by another one; two single quotes in a row stand for one.
  \<open>read_literal\<close> returns the string the literal denotes and the text after its closing
  quote, and \<open>None\<close> when the literal is not closed.
\<close>

fun read_literal :: "string \<Rightarrow> (string \<times> string) option" where
  "read_literal [] = None"
| "read_literal [c] = (if c = sq then Some ([], []) else None)"
| "read_literal (c # d # cs) =
     (if c = sq
      then (if d = sq then map_option (\<lambda>(s, r). (sq # s, r)) (read_literal cs)
            else Some ([], d # cs))
      else map_option (\<lambda>(s, r). (c # s, r)) (read_literal (d # cs)))"

subsection \<open>Sample hosts and states\<close>

text \<open>
  A host with the platform \<^verbatim>\<open>darwin\<close>, whose working directory is \<^verbatim>\<open>/home/u\<close>, a host with
  another platform, where the paths of the examples are absolute already, a shell in which
  every command fails, a path that holds a NUL character, and the states after one and
  after two calls of \<^verbatim>\<open>play\<close>; the examples below are evaluated on them. On both hosts the
  operating system starts every command.
\<close>

definition mac_host :: host where
  "mac_host = \<lparr>platform = ''darwin'',
     path_resolve = (\<lambda>p. if p = ''./ding.wav'' then ''/home/u/ding.wav'' else p),
     number_fmt = (\<lambda>x. if x = 4 / 5 then ''0.8'' else ''0.3''),
     spawn_errno = (\<lambda>cmd args. None)\<rparr>"

definition win_host :: host where
  "win_host = \<lparr>platform = ''win32'', path_resolve = (\<lambda>p. p),
     number_fmt = (\<lambda>x. if x = 4 / 5 then ''0.8'' else ''0.3''),
     spawn_errno = (\<lambda>cmd args. None)\<rparr>"



definition one_finishing :: world where
  "one_finishing = run mac_host [PlayFinished (0, 0, 0, 0) ''a.wav'' None] init"

definition two_playing :: world where
  "two_playing =
     run mac_host [Play (0, 0, 0, 0) ''a.wav'' None, Play (0, 0, 0, 1) ''b.wav'' None] init"

subsection \<open>What holds in every state of a run\<close>


definition promises_ok :: "world \<Rightarrow> bool" where
  "promises_ok w =
     (distinct (settled w) \<and>
      set (settled w) =
        set (filter (\<lambda>p. promises w ! p = Fulfilled) [0..<length (promises w)]) \<and>
      Rejected \<notin> set (promises w))"

section \<open>Facts about the model\<close>

subsection \<open>The registry\<close>

lemma Map_keys_simps [simp]:
  "Map_keys (w\<lparr>activeChildren := r\<rparr>) = map fst r"
  "Map_keys (w\<lparr>killed := k\<rparr>) = Map_keys w"
  "Map_keys (w\<lparr>listeners := l\<rparr>) = Map_keys w"
  "Map_keys (w\<lparr>promises := ps\<rparr>) = Map_keys w"
  "Map_keys (w\<lparr>settled := s\<rparr>) = Map_keys w"
  "Map_keys (w\<lparr>spawned := sp\<rparr>) = Map_keys w"
  by (simp_all add: Map_keys_def)

lemma map_of_None_keys: "(map_of (activeChildren w) pid = None) = (pid \<notin> set (Map_keys w))"
  by (simp add: Map_keys_def map_of_eq_None_iff)

lemma stop_absent: "pid \<notin> set (Map_keys w) \<Longrightarrow> stop pid w = (False, w)"
proof -
  assume "pid \<notin> set (Map_keys w)"
  then have "map_of (activeChildren w) pid = None" by (simp add: map_of_None_keys)
  then show ?thesis by (simp add: stop_def)
qed

lemma stop_present:
  "map_of (activeChildren w) pid = Some c \<Longrightarrow>
   stop pid w = (True, w\<lparr>killed := killed w @ [c], activeChildren := AList.delete pid (activeChildren w)\<rparr>)"
  by (simp add: stop_def kill_def)

lemma fst_stop: "fst (stop pid w) = (pid \<in> set (Map_keys w))"
proof (cases "map_of (activeChildren w) pid")
  case None
  then show ?thesis using map_of_None_keys[of w pid] by (simp add: stop_def)
next
  case (Some c)
  then show ?thesis using map_of_None_keys[of w pid] by (simp add: stop_def)
qed

lemma registry_stop: "activeChildren (snd (stop pid w)) = AList.delete pid (activeChildren w)"
proof (cases "map_of (activeChildren w) pid")
  case None
  then have "pid \<notin> fst ` set (activeChildren w)" by (simp add: map_of_eq_None_iff)
  then have "AList.delete pid (activeChildren w) = activeChildren w" by (rule delete_id)
  with None show ?thesis by (simp add: stop_def)
next
  case (Some c)
  then show ?thesis by (simp add: stop_def kill_def)
qed

lemma keys_delete: "map fst (AList.delete k r) = filter (\<lambda>x. x \<noteq> k) (map fst r)"
  by (induction r) (auto simp: AList.delete_eq)

lemma stop_each_distinct:
  "distinct (map fst r) \<Longrightarrow> activeChildren w = r \<Longrightarrow>
   stop_each (map fst r) w = w\<lparr>killed := killed w @ map snd r, activeChildren := []\<rparr>"
proof (induction r arbitrary: w)
  case Nil
  then show ?case by simp
next
  case (Cons e r)
  obtain k c where e: "e = (k, c)" by (cases e)
  from Cons.prems e have notin: "k \<notin> fst ` set r" and d: "distinct (map fst r)" by auto
  have st: "stop k w = (True, w\<lparr>killed := killed w @ [c], activeChildren := r\<rparr>)"
    using Cons.prems(2) e notin by (simp add: stop_def kill_def delete_id)
  show ?case using Cons.IH[OF d, of "w\<lparr>killed := killed w @ [c], activeChildren := r\<rparr>"] st e
    by simp
qed

lemma stop_results_distinct:
  "distinct (map fst r) \<Longrightarrow> activeChildren w = r \<Longrightarrow>
   stop_results (map fst r) w = replicate (length r) True"
proof (induction r arbitrary: w)
  case Nil
  then show ?case by simp
next
  case (Cons e r)
  obtain k c where e: "e = (k, c)" by (cases e)
  from Cons.prems e have notin: "k \<notin> fst ` set r" and d: "distinct (map fst r)" by auto
  have st: "stop k w = (True, w\<lparr>killed := killed w @ [c], activeChildren := r\<rparr>)"
    using Cons.prems(2) e notin by (simp add: stop_def kill_def delete_id)
  show ?case using Cons.IH[OF d, of "w\<lparr>killed := killed w @ [c], activeChildren := r\<rparr>"] st e
    by simp
qed


lemma play_cases:
  "play h rnd fp vol w =
     (case play_throws h fp vol of
        Some e \<Rightarrow> Inl e
      | None \<Rightarrow>
          Inr (makeId rnd,
               w\<lparr>spawned := spawned w @ [(hd (command h fp (default_volume vol)), tl (command h fp (default_volume vol)))],
                 activeChildren := AList.update (makeId rnd) (length (spawned w)) (activeChildren w),
                 listeners := listeners w @ [(length (spawned w), Exit, Cleanup (makeId rnd)),
                                             (length (spawned w), Error, Cleanup (makeId rnd))]\<rparr>))"
  by (simp add: play_def play_throws_def spawn_def once_def Let_def split: option.split)

lemma play_finished_cases:
  "play_finished h rnd fp vol w =
     (case play_throws h fp vol of
        Some e \<Rightarrow> Inl e
      | None \<Rightarrow>
          Inr ((makeId rnd, length (promises w)),
               w\<lparr>spawned := spawned w @ [(hd (command h fp (default_volume vol)), tl (command h fp (default_volume vol)))],
                 activeChildren := AList.update (makeId rnd) (length (spawned w)) (activeChildren w),
                 promises := promises w @ [Pending],
                 listeners := listeners w @ [(length (spawned w), Exit, CleanupResolve (makeId rnd) (length (promises w))),
                                             (length (spawned w), Error, CleanupResolve (makeId rnd) (length (promises w)))]\<rparr>))"
  by (simp add: play_finished_def play_throws_def spawn_def once_def new_Promise_def Let_def
      split: option.split)

lemma play_Inr:
  "play h rnd fp vol w = Inr (pid, w') \<Longrightarrow>
   play_throws h fp vol = None \<and> pid = makeId rnd \<and>
   w' = w\<lparr>spawned := spawned w @ [(hd (command h fp (default_volume vol)), tl (command h fp (default_volume vol)))],
          activeChildren := AList.update (makeId rnd) (length (spawned w)) (activeChildren w),
          listeners := listeners w @ [(length (spawned w), Exit, Cleanup (makeId rnd)),
                                      (length (spawned w), Error, Cleanup (makeId rnd))]\<rparr>"
  by (cases "play_throws h fp vol") (auto simp: play_cases)

lemma play_finished_Inr:
  "play_finished h rnd fp vol w = Inr ((pid, p), w') \<Longrightarrow>
   play_throws h fp vol = None \<and> pid = makeId rnd \<and> p = length (promises w) \<and>
   w' = w\<lparr>spawned := spawned w @ [(hd (command h fp (default_volume vol)), tl (command h fp (default_volume vol)))],
          activeChildren := AList.update (makeId rnd) (length (spawned w)) (activeChildren w),
          promises := promises w @ [Pending],
          listeners := listeners w @ [(length (spawned w), Exit, CleanupResolve (makeId rnd) (length (promises w))),
                                      (length (spawned w), Error, CleanupResolve (makeId rnd) (length (promises w)))]\<rparr>"
  by (cases "play_throws h fp vol") (auto simp: play_finished_cases)

lemma step_Play:
  "step h (Play rnd fp vol) w =
     (case play_throws h fp vol of
        Some e \<Rightarrow> w
      | None \<Rightarrow>
          w\<lparr>spawned := spawned w @ [(hd (command h fp (default_volume vol)), tl (command h fp (default_volume vol)))],
            activeChildren := AList.update (makeId rnd) (length (spawned w)) (activeChildren w),
            listeners := listeners w @ [(length (spawned w), Exit, Cleanup (makeId rnd)),
                                        (length (spawned w), Error, Cleanup (makeId rnd))]\<rparr>)"
  by (simp add: play_cases split: option.split)

lemma step_PlayFinished:
  "step h (PlayFinished rnd fp vol) w =
     (case play_throws h fp vol of
        Some e \<Rightarrow> w
      | None \<Rightarrow>
          w\<lparr>spawned := spawned w @ [(hd (command h fp (default_volume vol)), tl (command h fp (default_volume vol)))],
            activeChildren := AList.update (makeId rnd) (length (spawned w)) (activeChildren w),
            promises := promises w @ [Pending],
            listeners := listeners w @ [(length (spawned w), Exit, CleanupResolve (makeId rnd) (length (promises w))),
                                        (length (spawned w), Error, CleanupResolve (makeId rnd) (length (promises w)))]\<rparr>)"
  by (simp add: play_finished_cases split: option.split)

declare step.simps(1, 2) [simp del]

lemma registry_resolveFinished [simp]:
  "activeChildren (resolveFinished p w) = activeChildren w"
  by (simp add: resolveFinished_def)

lemma registry_call:
  "activeChildren (call cb w) = AList.delete (case cb of Cleanup i \<Rightarrow> i | CleanupResolve i p \<Rightarrow> i) (activeChildren w)"
  by (cases cb) simp_all

lemma keys_call: "set (Map_keys (call cb w)) \<subseteq> set (Map_keys w)"
  by (auto simp: Map_keys_def registry_call keys_delete)

lemma keys_fold_call: "set (Map_keys (fold call cbs w)) \<subseteq> set (Map_keys w)"
proof (induction cbs arbitrary: w)
  case Nil
  then show ?case by simp
next
  case (Cons cb cbs)
  have "set (Map_keys (fold call cbs (call cb w))) \<subseteq> set (Map_keys (call cb w))"
    by (rule Cons.IH)
  also have "\<dots> \<subseteq> set (Map_keys w)" by (rule keys_call)
  finally show ?case by simp
qed

lemma keys_emit: "set (Map_keys (emit c ev w)) \<subseteq> set (Map_keys w)"
  using keys_fold_call[of "fired c ev w"
      "w\<lparr>listeners := filter (\<lambda>l. \<not> (fst l = c \<and> fst (snd l) = ev)) (listeners w)\<rparr>"]
  by (simp add: emit_def)

lemma keys_stop: "Map_keys (snd (stop pid w)) = filter (\<lambda>x. x \<noteq> pid) (Map_keys w)"
  by (simp add: Map_keys_def registry_stop keys_delete)

lemma keys_stop_each: "set (Map_keys (stop_each ids w)) \<subseteq> set (Map_keys w)"
proof (induction ids arbitrary: w)
  case Nil
  then show ?case by simp
next
  case (Cons i ids)
  have "set (Map_keys (stop_each ids (snd (stop i w)))) \<subseteq> set (Map_keys (snd (stop i w)))"
    by (rule Cons.IH)
  also have "\<dots> \<subseteq> set (Map_keys w)" by (auto simp: keys_stop)
  finally show ?case by simp
qed

lemma keys_update: "set (map fst (AList.update k v r)) = insert k (set (map fst r))"
  using dom_update[of k v r] by simp

lemma keys_step_Play:
  "set (Map_keys (step h (Play rnd fp vol) w)) \<subseteq> insert (makeId rnd) (set (Map_keys w))"
  by (cases "play_throws h fp vol") (auto simp: step_Play Map_keys_def keys_update simp del: set_map)

lemma keys_step_PlayFinished:
  "set (Map_keys (step h (PlayFinished rnd fp vol) w)) \<subseteq> insert (makeId rnd) (set (Map_keys w))"
  by (cases "play_throws h fp vol")
     (auto simp: step_PlayFinished Map_keys_def keys_update simp del: set_map)

lemma keys_step:
  "set (Map_keys (step h a w)) \<subseteq> set (Map_keys w) \<union> set_option (registers a)"
proof (cases a)
  case (Play rnd fp vol)
  then show ?thesis using keys_step_Play[of h rnd fp vol w] by simp
next
  case (PlayFinished rnd fp vol)
  then show ?thesis using keys_step_PlayFinished[of h rnd fp vol w] by simp
next
  case (Stop i)
  then show ?thesis by (auto simp: keys_stop)
next
  case StopAll
  then show ?thesis using keys_stop_each[of "Map_keys w" w] by (simp add: stopAll_def)
next
  case (Emit c ev)
  then show ?thesis using keys_emit[of c ev w] by simp
qed

lemma run_Nil [simp]: "run h [] w = w"
  by (simp add: run_def)

lemma run_Cons [simp]: "run h (a # acts) w = run h acts (step h a w)"
  by (simp add: run_def)

lemma run_append: "run h (xs @ ys) w = run h ys (run h xs w)"
  by (simp add: run_def)

lemma keys_run:
  "pid \<notin> set (Map_keys w) \<Longrightarrow> \<forall>a\<in>set acts. registers a \<noteq> Some pid \<Longrightarrow>
   pid \<notin> set (Map_keys (run h acts w))"
proof (induction acts arbitrary: w)
  case Nil
  then show ?case by simp
next
  case (Cons a acts)
  have "pid \<notin> set (Map_keys (step h a w))"
    using keys_step[of h a w] Cons.prems by (cases "registers a") auto
  then show ?case using Cons.IH Cons.prems by simp
qed

lemma keys_stop_each_filter:
  "Map_keys (stop_each ids w) = filter (\<lambda>x. x \<notin> set ids) (Map_keys w)"
proof (induction ids arbitrary: w)
  case Nil
  then show ?case by simp
next
  case (Cons i ids)
  have "Map_keys (stop_each (i # ids) w) = filter (\<lambda>x. x \<notin> set ids) (Map_keys (snd (stop i w)))"
    using Cons.IH[of "snd (stop i w)"] by simp
  also have "\<dots> = filter (\<lambda>x. x \<notin> set (i # ids)) (Map_keys w)"
    by (simp add: keys_stop)
  finally show ?case .
qed

lemma makeId_zero: "makeId (0, 0, 0, 0) = ''00000000''"
  by (simp add: makeId_def randomBytes4_def toString_hex_def hex_byte_def hex_digit_def)

lemma makeId_one: "makeId (0, 0, 0, 1) = ''00000001''"
  by (simp add: makeId_def randomBytes4_def toString_hex_def hex_byte_def hex_digit_def)

lemma registry_ok_call: "registry_ok w \<Longrightarrow> registry_ok (call cb w)"
  by (simp add: registry_ok_def registry_call distinct_delete)

lemma registry_ok_fold_call: "registry_ok w \<Longrightarrow> registry_ok (fold call cbs w)"
  by (induction cbs arbitrary: w) (simp_all add: registry_ok_call)

lemma registry_ok_stop: "registry_ok w \<Longrightarrow> registry_ok (snd (stop pid w))"
  by (simp add: registry_ok_def registry_stop distinct_delete)

lemma registry_ok_stop_each: "registry_ok w \<Longrightarrow> registry_ok (stop_each ids w)"
  by (induction ids arbitrary: w) (simp_all add: registry_ok_stop)

lemma registry_ok_step: "registry_ok w \<Longrightarrow> registry_ok (step h a w)"
proof (cases a)
  case (Play rnd fp vol)
  assume "registry_ok w"
  then show ?thesis using Play by (simp add: registry_ok_def step_Play distinct_update split: option.split)
next
  case (PlayFinished rnd fp vol)
  assume "registry_ok w"
  then show ?thesis using PlayFinished by (simp add: registry_ok_def step_PlayFinished distinct_update split: option.split)
next
  case (Stop i)
  assume "registry_ok w"
  then show ?thesis using Stop by (simp add: registry_ok_stop)
next
  case StopAll
  assume "registry_ok w"
  then show ?thesis using StopAll by (simp add: stopAll_def registry_ok_stop_each)
next
  case (Emit c ev)
  assume "registry_ok w"
  then have "registry_ok (w\<lparr>listeners := filter (\<lambda>l. \<not> (fst l = c \<and> fst (snd l) = ev)) (listeners w)\<rparr>)"
    by (simp add: registry_ok_def)
  then show ?thesis using Emit by (simp add: emit_def registry_ok_fold_call)
qed

subsection \<open>Commands and identifiers\<close>

lemma command_darwin:
  "platform h = ''darwin'' \<Longrightarrow>
   command h fp v =
     [''afplay'', path_resolve h fp, ''-v'',
      Number_toString (number_fmt h) (Math_min (Finite 2) (times_2 v))]"
  by (simp add: command_def volForOs_def macPlayCommand_def)

lemma command_other:
  "platform h \<noteq> ''darwin'' \<Longrightarrow>
   command h fp v = [''powershell'', ''-NoProfile'', ''-Command'',
      windowsPowerShellScript (number_fmt h) (path_resolve h fp) v]"
  by (simp add: command_def volForOs_def windowsPlayCommand_def)

lemma big_power: "(1::real) < 2 ^ 1023"
  by (rule one_less_power) simp_all

lemma times_2_unit: "\<bar>x\<bar> \<le> 1 \<Longrightarrow> times_2 (Finite x) = Finite (x * 2)"
  using big_power by auto

lemma min_2_unit: "0 \<le> x \<Longrightarrow> x \<le> 1 \<Longrightarrow> Math_min (Finite 2) (times_2 (Finite x)) = Finite (min 2 (x * 2))"
  by (simp add: times_2_unit)

lemma adjusted_volume:
  "Math_min (Finite 2) (times_2 v) =
     (case v of
        NaN \<Rightarrow> NaN
      | PosInfinity \<Rightarrow> Finite 2
      | NegInfinity \<Rightarrow> NegInfinity
      | Finite x \<Rightarrow> if x \<le> - (2 ^ 1023) then NegInfinity else Finite (min 2 (x * 2)))"
proof (cases v)
  case (Finite x)
  show ?thesis
  proof (cases "2 ^ 1023 \<le> x")
    case True
    then have "1 < x" using big_power by simp
    then have "min 2 (x * 2) = 2" by simp
    moreover have "\<not> x \<le> - (2 ^ 1023)" using True big_power by simp
    ultimately show ?thesis using Finite True by simp
  next
    case False
    then show ?thesis using Finite by simp
  qed
qed simp_all

lemma times_2_half: "times_2 (Finite (1 / 2)) = Finite 1"
  using times_2_unit[of "1 / 2"] by simp

lemma spawned_play:
  "play h rnd fp vol w = Inr (pid, w') \<Longrightarrow>
   spawned w' =
     spawned w @ [(hd (command h fp (default_volume vol)), tl (command h fp (default_volume vol)))]"
  by (drule play_Inr) simp

lemma spawned_play_finished:
  "play_finished h rnd fp vol w = Inr ((pid, p), w') \<Longrightarrow>
   spawned w' =
     spawned w @ [(hd (command h fp (default_volume vol)), tl (command h fp (default_volume vol)))]"
  by (drule play_finished_Inr) simp

lemma decimal_1: "decimal (Suc 0) = ''1''"
  by (subst decimal.simps) simp

lemma decimal_2: "decimal 2 = ''2''"
  by (subst decimal.simps) simp

lemma Number_toString_1: "Number_toString f (Finite 1) = ''1''"
  by (simp add: decimal_1)

lemma Number_toString_08: "Number_toString (number_fmt win_host) (Finite (4 / 5)) = ''0.8''"
  by (simp add: win_host_def)

lemma no_NUL_samples: "\<not> has_NUL ''a.wav''" "\<not> has_NUL ''b.wav''" "\<not> has_NUL ''/home/u/ding.wav''"
  "\<not> has_NUL ''afplay''" "\<not> has_NUL ''-v''" "\<not> has_NUL ''1''"
  by (simp_all add: has_NUL_def)



lemma mac_host_plays:
  "\<not> has_NUL (path_resolve mac_host fp) \<Longrightarrow> play_throws mac_host fp None = None"
  "\<not> has_NUL (path_resolve mac_host fp) \<Longrightarrow> play_throws mac_host fp (Some (Finite (1 / 2))) = None"
proof -
  have m: "platform mac_host = ''darwin''" "spawn_errno mac_host = (\<lambda>cmd args. None)"
    by (simp_all add: mac_host_def)
  assume "\<not> has_NUL (path_resolve mac_host fp)"
  then show "play_throws mac_host fp None = None"
    "play_throws mac_host fp (Some (Finite (1 / 2))) = None"
    by (simp_all add: play_throws_def spawn_throws_def command_darwin[OF m(1)] default_volume_def
        times_2_half decimal_1 no_NUL_samples m(2))
qed

lemma mac_host_plays_samples:
  "play_throws mac_host ''a.wav'' None = None" "play_throws mac_host ''b.wav'' None = None"
  "play_throws mac_host ''./ding.wav'' None = None"
  "play_throws mac_host ''./ding.wav'' (Some (Finite (1 / 2))) = None"
  by (rule mac_host_plays, simp add: mac_host_def no_NUL_samples)+

lemma registry_two_playing: "activeChildren two_playing = [(''00000000'', 0), (''00000001'', 1)]"
  by (simp add: two_playing_def step_Play mac_host_plays_samples init_def makeId_zero makeId_one)

lemma killed_two_playing: "killed two_playing = []"
  by (simp add: two_playing_def step_Play mac_host_plays_samples init_def)

lemma read_literal_replace_quotes:
  "r = [] \<or> hd r \<noteq> sq \<Longrightarrow> read_literal (replace_quotes p @ sq # r) = Some (p, r)"
proof (induction p)
  case Nil
  then show ?case by (cases r) (simp_all add: replace_quotes_def)
next
  case (Cons c p)
  show ?case
  proof (cases "c = sq")
    case True
    then show ?thesis using Cons by (simp add: replace_quotes_def)
  next
    case False
    have "replace_quotes (c # p) @ sq # r = c # (replace_quotes p @ sq # r)"
      using False by (simp add: replace_quotes_def)
    moreover obtain d ds where "replace_quotes p @ sq # r = d # ds"
      by (cases "replace_quotes p @ sq # r") simp_all
    ultimately show ?thesis using Cons False by simp
  qed
qed








subsection \<open>Listeners and promises\<close>

lemma resolveFinished_fields [simp]:
  "spawned (resolveFinished p w) = spawned w"
  "killed (resolveFinished p w) = killed w"
  "listeners (resolveFinished p w) = listeners w"
  "length (promises (resolveFinished p w)) = length (promises w)"
  by (simp_all add: resolveFinished_def)

lemma call_fields [simp]:
  "spawned (call cb w) = spawned w"
  "killed (call cb w) = killed w"
  "listeners (call cb w) = listeners w"
  "length (promises (call cb w)) = length (promises w)"
  by (cases cb; simp)+

lemma fold_call_fields [simp]:
  "spawned (fold call cbs w) = spawned w"
  "killed (fold call cbs w) = killed w"
  "listeners (fold call cbs w) = listeners w"
  "length (promises (fold call cbs w)) = length (promises w)"
  by (induction cbs arbitrary: w; simp)+

lemma emit_fields [simp]:
  "spawned (emit c ev w) = spawned w"
  "killed (emit c ev w) = killed w"
  "listeners (emit c ev w) = filter (\<lambda>l. \<not> (fst l = c \<and> fst (snd l) = ev)) (listeners w)"
  "length (promises (emit c ev w)) = length (promises w)"
  by (simp_all add: emit_def)

lemma stop_fields [simp]:
  "spawned (snd (stop i w)) = spawned w"
  "listeners (snd (stop i w)) = listeners w"
  "promises (snd (stop i w)) = promises w"
  "settled (snd (stop i w)) = settled w"
  by (cases "map_of (activeChildren w) i"; simp add: stop_def kill_def)+

lemma stop_each_fields [simp]:
  "spawned (stop_each ids w) = spawned w"
  "listeners (stop_each ids w) = listeners w"
  "promises (stop_each ids w) = promises w"
  "settled (stop_each ids w) = settled w"
  by (induction ids arbitrary: w; simp)+

lemma stopAll_fields [simp]:
  "spawned (stopAll w) = spawned w"
  "listeners (stopAll w) = listeners w"
  "promises (stopAll w) = promises w"
  "settled (stopAll w) = settled w"
  by (simp_all add: stopAll_def)











lemma promises_ok_alt:
  "promises_ok w =
     (distinct (settled w) \<and>
      set (settled w) = {p. p < length (promises w) \<and> promises w ! p = Fulfilled} \<and>
      Rejected \<notin> set (promises w))"
proof -
  have "set (filter (\<lambda>p. promises w ! p = Fulfilled) [0..<length (promises w)]) =
      {p. p < length (promises w) \<and> promises w ! p = Fulfilled}"
    by auto
  then show ?thesis by (simp add: promises_ok_def)
qed


lemma promises_ok_registry [simp]:
  "promises_ok (w\<lparr>activeChildren := r\<rparr>) = promises_ok w"
  "promises_ok (w\<lparr>listeners := l\<rparr>) = promises_ok w"
  by (simp_all add: promises_ok_alt)














lemma count_list_distinct: "distinct xs \<Longrightarrow> x \<in> set xs \<Longrightarrow> count_list xs x = 1"
  by (induction xs) (auto simp: count_list_0_iff)



section \<open>The claims\<close>

subsection \<open>\<^verbatim>\<open>stop\<close>\<close>

text \<open>
  C1, as amended. \<^verbatim>\<open>stop(id)\<close> returns \<^verbatim>\<open>false\<close> and changes nothing when the id is not in the
  registry. When the id is there, it calls \<^verbatim>\<open>kill()\<close> on the child recorded for it, removes
  the id and returns \<^verbatim>\<open>true\<close>. After that, \<^verbatim>\<open>stop\<close> with the same id returns \<^verbatim>\<open>false\<close>
  whatever calls and events come in between, as long as no call of \<^verbatim>\<open>play\<close> among them
  draws the same id again.
\<close>

theorem stop_once:
  "(pid \<notin> set (Map_keys w) \<longrightarrow> stop pid w = (False, w)) \<and>
   (map_of (activeChildren w) pid = Some c \<longrightarrow>
      fst (stop pid w) = True \<and> killed (snd (stop pid w)) = killed w @ [c] \<and>
      pid \<notin> set (Map_keys (snd (stop pid w)))) \<and>
   ((\<forall>a\<in>set acts. registers a \<noteq> Some pid) \<longrightarrow>
      fst (stop pid (run h acts (snd (stop pid w)))) = False)"
proof (intro conjI impI)
  assume "pid \<notin> set (Map_keys w)"
  then show "stop pid w = (False, w)" by (rule stop_absent)
next
  assume a: "map_of (activeChildren w) pid = Some c"
  show "fst (stop pid w) = True" by (simp add: stop_present[OF a])
  show "killed (snd (stop pid w)) = killed w @ [c]" by (simp add: stop_present[OF a])
  show "pid \<notin> set (Map_keys (snd (stop pid w)))" by (simp add: keys_stop)
next
  assume a: "\<forall>a\<in>set acts. registers a \<noteq> Some pid"
  have "pid \<notin> set (Map_keys (snd (stop pid w)))" by (simp add: keys_stop)
  then have "pid \<notin> set (Map_keys (run h acts (snd (stop pid w))))"
    using a by (rule keys_run)
  then show "fst (stop pid (run h acts (snd (stop pid w)))) = False"
    by (simp add: fst_stop)
qed

theorem stop_once_witness:
  "stop ''ffffffff'' (run mac_host [Play (0, 0, 0, 0) ''a.wav'' None] init) =
     (False, run mac_host [Play (0, 0, 0, 0) ''a.wav'' None] init) \<and>
   fst (stop ''00000000'' (run mac_host [Play (0, 0, 0, 0) ''a.wav'' None] init)) = True \<and>
   killed (snd (stop ''00000000'' (run mac_host [Play (0, 0, 0, 0) ''a.wav'' None] init))) = [0] \<and>
   ''00000000'' \<notin> set (Map_keys (snd (stop ''00000000'' (run mac_host [Play (0, 0, 0, 0) ''a.wav'' None] init)))) \<and>
   fst (stop ''00000000''
         (run mac_host [Stop ''00000000'', Emit 0 Exit, Play (0, 0, 0, 1) ''b.wav'' None, StopAll]
            (snd (stop ''00000000'' (run mac_host [Play (0, 0, 0, 0) ''a.wav'' None] init))))) = False"
proof -
  define w where "w = run mac_host [Play (0, 0, 0, 0) ''a.wav'' None] init"
  have k: "Map_keys w = [''00000000'']"
    by (simp add: w_def step_Play mac_host_plays_samples init_def makeId_zero Map_keys_def)
  have m: "map_of (activeChildren w) ''00000000'' = Some 0"
    by (simp add: w_def step_Play mac_host_plays_samples init_def makeId_zero)
  have kl: "killed w = []"
    by (simp add: w_def step_Play mac_host_plays_samples init_def)
  have i1: "makeId (0, 0, 0, 1) \<noteq> ''00000000''"
    by (simp add: makeId_def randomBytes4_def toString_hex_def hex_byte_def hex_digit_def)
  have r: "\<forall>a\<in>set [Stop ''00000000'', Emit 0 Exit, Play (0, 0, 0, 1) ''b.wav'' None, StopAll].
             registers a \<noteq> Some ''00000000''"
    using i1 by simp
  have a: "''ffffffff'' \<notin> set (Map_keys w)" by (simp add: k)
  from stop_once[of "''ffffffff''" w 0 "[]" mac_host] a
  have 1: "stop ''ffffffff'' w = (False, w)" by blast
  from stop_once[of "''00000000''" w 0
      "[Stop ''00000000'', Emit 0 Exit, Play (0, 0, 0, 1) ''b.wav'' None, StopAll]" mac_host] m r kl
  have 2: "fst (stop ''00000000'' w) = True \<and> killed (snd (stop ''00000000'' w)) = [0] \<and>
      ''00000000'' \<notin> set (Map_keys (snd (stop ''00000000'' w))) \<and>
      fst (stop ''00000000''
         (run mac_host [Stop ''00000000'', Emit 0 Exit, Play (0, 0, 0, 1) ''b.wav'' None, StopAll]
            (snd (stop ''00000000'' w)))) = False"
    by simp
  from 1 2 show ?thesis unfolding w_def by blast
qed

text \<open>
  C1 as stated fails: \<^verbatim>\<open>makeId\<close> does not look at the registry, so a later \<^verbatim>\<open>play\<close> can draw an
  id that was stopped before, and then a second \<^verbatim>\<open>stop\<close> on that id returns \<^verbatim>\<open>true\<close>.
\<close>

theorem stop_true_again_after_reuse:
  "fst (stop ''00000000'' (run mac_host [Play (0, 0, 0, 0) ''a.wav'' None] init)) = True \<and>
   fst (stop ''00000000''
         (run mac_host [Play (0, 0, 0, 0) ''a.wav'' None, Stop ''00000000'',
                        Play (0, 0, 0, 0) ''b.wav'' None] init)) = True"
  by (simp add: fst_stop registry_stop step_Play mac_host_plays_samples Map_keys_def init_def
      makeId_zero dom_update)

text \<open>
  C10. \<^verbatim>\<open>stop(id)\<close> leaves every other key of the registry with its child, keeps the order
  of the entries, and leaves the whole state as it was when the id is not registered.
\<close>

theorem stop_frame:
  "(k \<noteq> pid \<longrightarrow>
      map_of (activeChildren (snd (stop pid w))) k = map_of (activeChildren w) k) \<and>
   (pid \<notin> set (Map_keys w) \<longrightarrow> snd (stop pid w) = w) \<and>
   activeChildren (snd (stop pid w)) = filter (\<lambda>e. fst e \<noteq> pid) (activeChildren w)"
proof (intro conjI impI)
  assume "k \<noteq> pid"
  then show "map_of (activeChildren (snd (stop pid w))) k = map_of (activeChildren w) k"
    by (simp add: registry_stop delete_conv')
next
  assume "pid \<notin> set (Map_keys w)"
  then show "snd (stop pid w) = w" by (simp add: stop_absent)
next
  show "activeChildren (snd (stop pid w)) = filter (\<lambda>e. fst e \<noteq> pid) (activeChildren w)"
    by (simp add: registry_stop AList.delete_eq case_prod_unfold) (rule filter_cong, auto)
qed

theorem stop_frame_witness:
  "map_of (activeChildren (snd (stop ''00000000'' two_playing))) ''00000001'' = Some 1 \<and>
   snd (stop ''0000000f'' two_playing) = two_playing \<and>
   activeChildren (snd (stop ''00000000'' two_playing)) = [(''00000001'', 1)]"
proof -
  have a: "''0000000f'' \<notin> set (Map_keys two_playing)"
    by (simp add: Map_keys_def registry_two_playing)
  have b: "''00000001'' \<noteq> ''00000000''" by simp
  from stop_frame[of "''00000001''" "''00000000''" two_playing] b
  have 1: "map_of (activeChildren (snd (stop ''00000000'' two_playing))) ''00000001'' = Some 1"
    and 3: "activeChildren (snd (stop ''00000000'' two_playing)) = [(''00000001'', 1)]"
    by (simp_all add: registry_two_playing)
  from stop_frame[of "''00000001''" "''0000000f''" two_playing] a
  have 2: "snd (stop ''0000000f'' two_playing) = two_playing" by blast
  from 1 2 3 show ?thesis by blast
qed

subsection \<open>\<^verbatim>\<open>stopAll\<close>\<close>

text \<open>
  \<^verbatim>\<open>stopAll\<close> of \<^verbatim>\<open>audio-player.ts\<close> calls \<^verbatim>\<open>stop\<close> once for each element of the list of keys the
  registry holds when it is called (that is \<open>stopAll_def\<close> and the recursion of
  \<open>stop_each\<close>). A registered id stands once in that list and no other id stands in it,
  every call of \<^verbatim>\<open>stop\<close> in the loop finds its id and returns \<^verbatim>\<open>true\<close>, so every child of the
  registry is killed once, in the order of the registry, and the registry is empty
  afterwards.
\<close>

theorem stopAll_each_once:
  "activeChildren (stopAll w) = [] \<and>
   (registry_ok w \<longrightarrow>
      distinct (Map_keys w) \<and>
      count_list (Map_keys w) pid = (if map_of (activeChildren w) pid = None then 0 else 1) \<and>
      stop_results (Map_keys w) w = replicate (length (Map_keys w)) True \<and>
      killed (stopAll w) = killed w @ map snd (activeChildren w) \<and>
      stopAll w = w\<lparr>killed := killed w @ map snd (activeChildren w), activeChildren := []\<rparr>)"
proof (intro conjI impI)
  have "Map_keys (stopAll w) = []" by (simp add: stopAll_def keys_stop_each_filter)
  then show "activeChildren (stopAll w) = []" by (simp add: Map_keys_def)
next
  assume ok: "registry_ok w"
  then have d: "distinct (map fst (activeChildren w))" by (simp add: registry_ok_def)
  show dk: "distinct (Map_keys w)" using d by (simp add: Map_keys_def)
  show "count_list (Map_keys w) pid = (if map_of (activeChildren w) pid = None then 0 else 1)"
    using dk by (simp add: map_of_None_keys count_list_distinct count_list_0_iff)
  show "stop_results (Map_keys w) w = replicate (length (Map_keys w)) True"
    using stop_results_distinct[OF d, of w] by (simp add: Map_keys_def)
  show e: "stopAll w = w\<lparr>killed := killed w @ map snd (activeChildren w), activeChildren := []\<rparr>"
    using stop_each_distinct[OF d, of w] by (simp add: stopAll_def Map_keys_def)
  show "killed (stopAll w) = killed w @ map snd (activeChildren w)"
    by (simp add: e)
qed

theorem stopAll_each_once_witness:
  "activeChildren (stopAll two_playing) = [] \<and>
   distinct (Map_keys two_playing) \<and>
   count_list (Map_keys two_playing) ''00000001'' = 1 \<and>
   count_list (Map_keys two_playing) ''0000000f'' = 0 \<and>
   stop_results [''00000000'', ''00000001''] two_playing = [True, True] \<and>
   killed (stopAll two_playing) = [0, 1]"
proof -
  have ok: "registry_ok two_playing" by (simp add: registry_ok_def registry_two_playing)
  have k: "Map_keys two_playing = [''00000000'', ''00000001'']"
    by (simp add: Map_keys_def registry_two_playing)
  have kl: "killed two_playing = []"
    by (simp add: killed_two_playing)
  from stopAll_each_once[of two_playing "''00000001''"] stopAll_each_once[of two_playing "''0000000f''"]
    ok k kl
  show ?thesis by (simp add: registry_two_playing)
qed

text \<open>
  Called as a method of the exported object, \<^verbatim>\<open>stopAll\<close> of \<^verbatim>\<open>index.js\<close> does the same; with
  an empty registry it returns whatever \<^verbatim>\<open>this\<close> is.
\<close>

theorem index_stopAll_method:
  "index_stopAll Exports w = Inr (stopAll w) \<and>
   (activeChildren w = [] \<longrightarrow> index_stopAll this w = Inr w)"
proof -
  have "this_stop_each Exports ids v = Inr (stop_each ids v)" for ids v
    by (induction ids arbitrary: v) simp_all
  then show ?thesis by (simp add: index_stopAll_def stopAll_def Map_keys_def)
qed

text \<open>
  C4. The claim holds of \<^verbatim>\<open>stopAll\<close> of \<^verbatim>\<open>audio-player.ts\<close>, as shown above, and fails on
  \<^verbatim>\<open>stopAll\<close> of \<^verbatim>\<open>index.js\<close>: called on its own while two sounds play, it throws at the first
  id, so that no child is killed and both ids stay registered, where \<^verbatim>\<open>stopAll\<close> of
  \<^verbatim>\<open>audio-player.ts\<close> kills both children and empties the registry.
\<close>

theorem index_stopAll_detached_throws:
  "activeChildren two_playing = [(''00000000'', 0), (''00000001'', 1)] \<and>
   index_stopAll NoStop two_playing = Inl TypeError \<and>
   index_stopAll Exports two_playing = Inr (stopAll two_playing) \<and>
   killed (stopAll two_playing) = [0, 1] \<and>
   activeChildren (stopAll two_playing) = []"
proof -
  have "this_stop_each Exports ids v = Inr (stop_each ids v)" for ids v
    by (induction ids arbitrary: v) simp_all
  then have e: "index_stopAll Exports two_playing = Inr (stopAll two_playing)"
    by (simp add: index_stopAll_def stopAll_def)
  have d: "distinct (map fst (activeChildren two_playing))" by (simp add: registry_two_playing)
  have s: "stopAll two_playing = two_playing\<lparr>killed := [0, 1], activeChildren := []\<rparr>"
    using stop_each_distinct[OF d refl]
    by (simp add: stopAll_def Map_keys_def registry_two_playing killed_two_playing)
  have t: "index_stopAll NoStop two_playing = Inl TypeError"
    by (simp add: index_stopAll_def Map_keys_def registry_two_playing)
  show ?thesis using e t by (simp add: s registry_two_playing)
qed

subsection \<open>The command\<close>

text \<open>
  C3. For a volume \<open>v\<close> from 0 to 1, on the platform \<^verbatim>\<open>darwin\<close> the value handed to the
  builder of the player's command is \<open>min 2 (v * 2)\<close> and its text follows \<^verbatim>\<open>-v\<close>; on every
  other platform the value is \<open>v\<close> itself and the script holds the line
  \<^verbatim>\<open>$player.Volume = v;\<close> with its text. The same holds of the command line of the original
  module, and the command \<^verbatim>\<open>play\<close> spawns is the one so built.
\<close>

theorem volume_per_platform:
  "0 \<le> v \<and> v \<le> 1 \<longrightarrow>
   (platform h = ''darwin'' \<longrightarrow>
      volForOs h (Finite v) = Finite (min 2 (v * 2)) \<and>
      command h fp (Finite v) =
        [''afplay'', path_resolve h fp, ''-v'',
         Number_toString (number_fmt h) (Finite (min 2 (v * 2)))] \<and>
      legacy_playCommand h fp (Some (Finite v)) rt =
        ''afplay '' @ [dq] @ fp @ [dq] @
        '' -v '' @ Number_toString (number_fmt h) (Finite (min 2 (v * 2))) @
        '' -r '' @ Number_toString (number_fmt h) (case rt of None \<Rightarrow> Finite 1 | Some r \<Rightarrow> r)) \<and>
   (platform h \<noteq> ''darwin'' \<longrightarrow>
      volForOs h (Finite v) = Finite v \<and>
      command h fp (Finite v) =
        [''powershell'', ''-NoProfile'', ''-Command'',
         ''\<newline>Add-Type -AssemblyName presentationCore;'' @
         ''\<newline>$player = New-Object system.windows.media.mediaplayer;'' @
         ''\<newline>$player.open('' @ [sq] @ replace_quotes (path_resolve h fp) @ [sq] @ '');'' @
         ''\<newline>$player.Volume = '' @ Number_toString (number_fmt h) (Finite v) @ '';'' @
         ''\<newline>$player.Play();'' @
         ''\<newline># Keep the process alive until the media finishes'' @
         ''\<newline>Start-Sleep -s $player.NaturalDuration.TimeSpan.TotalSeconds;'' @
         ''\<newline>''] \<and>
      legacy_playCommand h fp (Some (Finite v)) rt =
        ''powershell -c Add-Type -AssemblyName presentationCore; '' @
        ''$player = New-Object system.windows.media.mediaplayer; '' @
        ''$player.open('' @ [sq] @ fp @ [sq] @ ''); '' @
        ''$player.Volume = '' @ Number_toString (number_fmt h) (Finite v) @ ''; '' @
        ''$player.Play(); '' @
        ''Start-Sleep 1; Start-Sleep -s $player.NaturalDuration.TimeSpan.TotalSeconds;Exit;'') \<and>
   (play h rnd fp (Some (Finite v)) w = Inr (pid, w') \<longrightarrow>
      spawned w' = spawned w @ [(hd (command h fp (Finite v)), tl (command h fp (Finite v)))]) \<and>
   (play_finished h rnd fp (Some (Finite v)) w = Inr (res, w'') \<longrightarrow>
      spawned w'' = spawned w @ [(hd (command h fp (Finite v)), tl (command h fp (Finite v)))])"
proof (intro impI conjI)
  assume r: "0 \<le> v \<and> v \<le> 1"
  then have m: "Math_min (Finite 2) (times_2 (Finite v)) = Finite (min 2 (v * 2))"
    by (simp add: min_2_unit)
  {
    assume d: "platform h = ''darwin''"
    show "volForOs h (Finite v) = Finite (min 2 (v * 2))"
      using d m by (simp add: volForOs_def)
    show "command h fp (Finite v) =
        [''afplay'', path_resolve h fp, ''-v'',
         Number_toString (number_fmt h) (Finite (min 2 (v * 2)))]"
      using m by (simp only: command_darwin[OF d])
    show "legacy_playCommand h fp (Some (Finite v)) rt =
        ''afplay '' @ [dq] @ fp @ [dq] @
        '' -v '' @ Number_toString (number_fmt h) (Finite (min 2 (v * 2))) @
        '' -r '' @ Number_toString (number_fmt h) (case rt of None \<Rightarrow> Finite 1 | Some r \<Rightarrow> r)"
      using d m by (simp add: legacy_playCommand_def legacy_macPlayCommand_def
          del: Number_toString.simps times_2.simps Math_min.simps)
  }
  {
    assume d: "platform h \<noteq> ''darwin''"
    show "volForOs h (Finite v) = Finite v"
      using d by (simp add: volForOs_def)
    show "command h fp (Finite v) =
        [''powershell'', ''-NoProfile'', ''-Command'',
         ''\<newline>Add-Type -AssemblyName presentationCore;'' @
         ''\<newline>$player = New-Object system.windows.media.mediaplayer;'' @
         ''\<newline>$player.open('' @ [sq] @ replace_quotes (path_resolve h fp) @ [sq] @ '');'' @
         ''\<newline>$player.Volume = '' @ Number_toString (number_fmt h) (Finite v) @ '';'' @
         ''\<newline>$player.Play();'' @
         ''\<newline># Keep the process alive until the media finishes'' @
         ''\<newline>Start-Sleep -s $player.NaturalDuration.TimeSpan.TotalSeconds;'' @
         ''\<newline>'']"
      by (simp only: command_other[OF d] windowsPowerShellScript_def script_head_def
          script_tail_def append_assoc)
    show "legacy_playCommand h fp (Some (Finite v)) rt =
        ''powershell -c Add-Type -AssemblyName presentationCore; '' @
        ''$player = New-Object system.windows.media.mediaplayer; '' @
        ''$player.open('' @ [sq] @ fp @ [sq] @ ''); '' @
        ''$player.Volume = '' @ Number_toString (number_fmt h) (Finite v) @ ''; '' @
        ''$player.Play(); '' @
        ''Start-Sleep 1; Start-Sleep -s $player.NaturalDuration.TimeSpan.TotalSeconds;Exit;''"
      using d by (simp add: legacy_playCommand_def windowPlayCommand_def addPresentationCore_def
          createMediaPlayer_def loadAudioFile_def playAudio_def stopAudio_def
          del: Number_toString.simps)
  }
  {
    assume "play h rnd fp (Some (Finite v)) w = Inr (pid, w')"
    then show "spawned w' = spawned w @ [(hd (command h fp (Finite v)), tl (command h fp (Finite v)))]"
      using spawned_play[of h rnd fp "Some (Finite v)" w pid w'] by (simp add: default_volume_def)
  }
  {
    assume "play_finished h rnd fp (Some (Finite v)) w = Inr (res, w'')"
    then show "spawned w'' = spawned w @ [(hd (command h fp (Finite v)), tl (command h fp (Finite v)))]"
      using spawned_play_finished[of h rnd fp "Some (Finite v)" w "fst res" "snd res" w'']
      by (simp add: default_volume_def)
  }
qed

theorem volume_per_platform_witness:
  "command mac_host ''./ding.wav'' (Finite (1 / 2)) = [''afplay'', ''/home/u/ding.wav'', ''-v'', ''1''] \<and>
   legacy_playCommand mac_host ''./ding.wav'' (Some (Finite (1 / 2))) None =
     ''afplay '' @ [dq] @ ''./ding.wav'' @ [dq] @ '' -v 1 -r 1'' \<and>
   volForOs win_host (Finite (4 / 5)) = Finite (4 / 5) \<and>
   command win_host ''ding.wav'' (Finite (4 / 5)) =
     [''powershell'', ''-NoProfile'', ''-Command'',
      ''\<newline>Add-Type -AssemblyName presentationCore;'' @
      ''\<newline>$player = New-Object system.windows.media.mediaplayer;'' @
      ''\<newline>$player.open('' @ [sq] @ ''ding.wav'' @ [sq] @ '');'' @
      ''\<newline>$player.Volume = 0.8;'' @
      ''\<newline>$player.Play();'' @
      ''\<newline># Keep the process alive until the media finishes'' @
      ''\<newline>Start-Sleep -s $player.NaturalDuration.TimeSpan.TotalSeconds;'' @
      ''\<newline>''] \<and>
   spawned (step mac_host (Play (0, 0, 0, 0) ''./ding.wav'' (Some (Finite (1 / 2)))) init) =
     [(''afplay'', [''/home/u/ding.wav'', ''-v'', ''1''])]"
proof -
  have m: "platform mac_host = ''darwin''" by (simp add: mac_host_def)
  have n: "platform win_host \<noteq> ''darwin''" by (simp add: win_host_def)
  have r: "(0::real) \<le> 1 / 2 \<and> (1 / 2 :: real) \<le> 1" by simp
  have r': "(0::real) \<le> 4 / 5 \<and> (4 / 5 :: real) \<le> 1" by simp
  have p: "play mac_host (0, 0, 0, 0) ''./ding.wav'' (Some (Finite (1 / 2))) init =
      Inr (''00000000'', step mac_host (Play (0, 0, 0, 0) ''./ding.wav'' (Some (Finite (1 / 2)))) init)"
    by (simp add: play_cases step_Play mac_host_plays_samples makeId_zero)
  from volume_per_platform[of "1 / 2" mac_host "''./ding.wav''" None "(0, 0, 0, 0)" init
      "''00000000''" "step mac_host (Play (0, 0, 0, 0) ''./ding.wav'' (Some (Finite (1 / 2)))) init"] m r p
  have 1: "command mac_host ''./ding.wav'' (Finite (1 / 2)) = [''afplay'', ''/home/u/ding.wav'', ''-v'', ''1'']"
    and 2: "legacy_playCommand mac_host ''./ding.wav'' (Some (Finite (1 / 2))) None =
     ''afplay '' @ [dq] @ ''./ding.wav'' @ [dq] @ '' -v 1 -r 1''"
    and 5: "spawned (step mac_host (Play (0, 0, 0, 0) ''./ding.wav'' (Some (Finite (1 / 2)))) init) =
     [(''afplay'', [''/home/u/ding.wav'', ''-v'', ''1''])]"
    by (simp_all add: decimal_1 mac_host_def init_def)
  from volume_per_platform[of "4 / 5" win_host "''ding.wav''" None] n r'
  have 3: "volForOs win_host (Finite (4 / 5)) = Finite (4 / 5)"
    and 4: "command win_host ''ding.wav'' (Finite (4 / 5)) =
     [''powershell'', ''-NoProfile'', ''-Command'',
      ''\<newline>Add-Type -AssemblyName presentationCore;'' @
      ''\<newline>$player = New-Object system.windows.media.mediaplayer;'' @
      ''\<newline>$player.open('' @ [sq] @ ''ding.wav'' @ [sq] @ '');'' @
      ''\<newline>$player.Volume = 0.8;'' @
      ''\<newline>$player.Play();'' @
      ''\<newline># Keep the process alive until the media finishes'' @
      ''\<newline>Start-Sleep -s $player.NaturalDuration.TimeSpan.TotalSeconds;'' @
      ''\<newline>'']"
    by (simp_all add: replace_quotes_def sq_def win_host_def)
  from 1 2 3 4 5 show ?thesis by blast
qed

text \<open>
  C6, as amended. On the platform \<^verbatim>\<open>darwin\<close>, for every path and every volume, the command
  the spawn-based \<^verbatim>\<open>play\<close> builds is \<^verbatim>\<open>afplay\<close> with exactly three arguments: the resolved
  path, \<^verbatim>\<open>-v\<close> and the text of \<^verbatim>\<open>Math.min(2, volume * 2)\<close>; and that is the command it has
  spawned when it returns. The adjusted volume is \<^verbatim>\<open>NaN\<close> for \<^verbatim>\<open>NaN\<close>, 2 for \<^verbatim>\<open>Infinity\<close>,
  \<^verbatim>\<open>-Infinity\<close> for \<^verbatim>\<open>-Infinity\<close> and for a finite volume whose double overflows, and the
  smaller of 2 and twice the volume otherwise. So \<^verbatim>\<open>play("./ding.wav", 0.5)\<close> spawns \<^verbatim>\<open>afplay /home/u/ding.wav -v 1\<close>
  in the directory \<^verbatim>\<open>/home/u\<close>, and the volume \<^verbatim>\<open>NaN\<close> gives \<^verbatim>\<open>-v NaN\<close>.
\<close>

theorem mac_command:
  "platform h = ''darwin'' \<longrightarrow>
     Math_min (Finite 2) (times_2 (default_volume vol)) =
       (case default_volume vol of
          NaN \<Rightarrow> NaN
        | PosInfinity \<Rightarrow> Finite 2
        | NegInfinity \<Rightarrow> NegInfinity
        | Finite x \<Rightarrow> if x \<le> - (2 ^ 1023) then NegInfinity else Finite (min 2 (x * 2))) \<and>
     command h fp (default_volume vol) =
       [''afplay'', path_resolve h fp, ''-v'',
        Number_toString (number_fmt h) (Math_min (Finite 2) (times_2 (default_volume vol)))] \<and>
     (play h rnd fp vol w = Inr (pid, w') \<longrightarrow>
        spawned w' =
          spawned w @ [(''afplay'', [path_resolve h fp, ''-v'',
             Number_toString (number_fmt h) (Math_min (Finite 2) (times_2 (default_volume vol)))])]) \<and>
     (play_finished h rnd fp vol w = Inr (res, w'') \<longrightarrow>
        spawned w'' =
          spawned w @ [(''afplay'', [path_resolve h fp, ''-v'',
             Number_toString (number_fmt h) (Math_min (Finite 2) (times_2 (default_volume vol)))])])"
proof (intro impI conjI)
  show "Math_min (Finite 2) (times_2 (default_volume vol)) =
       (case default_volume vol of
          NaN \<Rightarrow> NaN
        | PosInfinity \<Rightarrow> Finite 2
        | NegInfinity \<Rightarrow> NegInfinity
        | Finite x \<Rightarrow> if x \<le> - (2 ^ 1023) then NegInfinity else Finite (min 2 (x * 2)))"
    by (rule adjusted_volume)
  assume d: "platform h = ''darwin''"
  show "command h fp (default_volume vol) =
       [''afplay'', path_resolve h fp, ''-v'',
        Number_toString (number_fmt h) (Math_min (Finite 2) (times_2 (default_volume vol)))]"
    by (rule command_darwin[OF d])
  {
    assume "play h rnd fp vol w = Inr (pid, w')"
    then show "spawned w' =
          spawned w @ [(''afplay'', [path_resolve h fp, ''-v'',
             Number_toString (number_fmt h) (Math_min (Finite 2) (times_2 (default_volume vol)))])]"
      using spawned_play[of h rnd fp vol w pid w'] by (simp only: command_darwin[OF d] list.sel)
  }
  {
    assume "play_finished h rnd fp vol w = Inr (res, w'')"
    then show "spawned w'' =
          spawned w @ [(''afplay'', [path_resolve h fp, ''-v'',
             Number_toString (number_fmt h) (Math_min (Finite 2) (times_2 (default_volume vol)))])]"
      using spawned_play_finished[of h rnd fp vol w "fst res" "snd res" w'']
      by (simp only: command_darwin[OF d] list.sel prod.collapse)
  }
qed

theorem mac_command_witness:
  "command mac_host ''./ding.wav'' (Finite (1 / 2)) = [''afplay'', ''/home/u/ding.wav'', ''-v'', ''1''] \<and>
   command mac_host ''./ding.wav'' NaN = [''afplay'', ''/home/u/ding.wav'', ''-v'', ''NaN''] \<and>
   command mac_host ''./ding.wav'' PosInfinity = [''afplay'', ''/home/u/ding.wav'', ''-v'', ''2''] \<and>
   command mac_host ''./ding.wav'' (Finite 3) = [''afplay'', ''/home/u/ding.wav'', ''-v'', ''2''] \<and>
   command mac_host ''./ding.wav'' (Finite (- (2 ^ 1023))) =
     [''afplay'', ''/home/u/ding.wav'', ''-v'', ''-Infinity''] \<and>
   spawned (step mac_host (Play (0, 0, 0, 0) ''./ding.wav'' (Some (Finite (1 / 2)))) init) =
     [(''afplay'', [''/home/u/ding.wav'', ''-v'', ''1''])]"
proof -
  have m: "platform mac_host = ''darwin''" by (simp add: mac_host_def)
  have q: "path_resolve mac_host ''./ding.wav'' = ''/home/u/ding.wav''" by (simp add: mac_host_def)
  have i: "spawned init = []" by (simp add: init_def)
  have p: "play mac_host (0, 0, 0, 0) ''./ding.wav'' (Some (Finite (1 / 2))) init =
      Inr (''00000000'', step mac_host (Play (0, 0, 0, 0) ''./ding.wav'' (Some (Finite (1 / 2)))) init)"
    by (simp add: play_cases step_Play mac_host_plays_samples makeId_zero)
  have big: "\<not> (2 :: real) ^ 1023 \<le> - (2 ^ 1023)"
    using big_power by simp
  from mac_command[where h = mac_host and fp = "''./ding.wav''" and vol = "Some (Finite (1 / 2))"
      and rnd = "(0, 0, 0, 0)" and w = init and pid = "''00000000''"
      and w' = "step mac_host (Play (0, 0, 0, 0) ''./ding.wav'' (Some (Finite (1 / 2)))) init"] m p
  have 1: "command mac_host ''./ding.wav'' (Finite (1 / 2)) = [''afplay'', ''/home/u/ding.wav'', ''-v'', ''1'']"
    and 4: "spawned (step mac_host (Play (0, 0, 0, 0) ''./ding.wav'' (Some (Finite (1 / 2)))) init) =
     [(''afplay'', [''/home/u/ding.wav'', ''-v'', ''1''])]"
    by (simp_all add: q i default_volume_def times_2_half decimal_1)
  from mac_command[where h = mac_host and fp = "''./ding.wav''" and vol = "Some NaN"] m
  have 2: "command mac_host ''./ding.wav'' NaN = [''afplay'', ''/home/u/ding.wav'', ''-v'', ''NaN'']"
    by (simp add: q default_volume_def)
  from mac_command[where h = mac_host and fp = "''./ding.wav''"
      and vol = "Some (Finite (- (2 ^ 1023)))"] m
  have 3: "command mac_host ''./ding.wav'' (Finite (- (2 ^ 1023))) =
     [''afplay'', ''/home/u/ding.wav'', ''-v'', ''-Infinity'']"
    using big by (simp add: q default_volume_def)
  from mac_command[where h = mac_host and fp = "''./ding.wav''" and vol = "Some PosInfinity"] m
  have 5: "command mac_host ''./ding.wav'' PosInfinity = [''afplay'', ''/home/u/ding.wav'', ''-v'', ''2'']"
    by (simp add: q default_volume_def decimal_2)
  from mac_command[where h = mac_host and fp = "''./ding.wav''" and vol = "Some (Finite 3)"] m
  have 6: "command mac_host ''./ding.wav'' (Finite 3) = [''afplay'', ''/home/u/ding.wav'', ''-v'', ''2'']"
    using big_power by (simp add: q default_volume_def decimal_2)
  from 1 2 3 4 5 6 show ?thesis by blast
qed

text \<open>
  C6 as stated fails on the original module: its command line holds the path as given, in
  double quotes, and a further flag \<^verbatim>\<open>-r\<close> with the playback rate.
\<close>

theorem legacy_mac_command_differs:
  "legacy_playCommand mac_host ''./ding.wav'' (Some (Finite (1 / 2))) None =
     ''afplay '' @ [dq] @ ''./ding.wav'' @ [dq] @ '' -v 1 -r 1'' \<and>
   legacy_playCommand mac_host ''./ding.wav'' (Some (Finite (1 / 2))) None \<noteq>
     ''afplay '' @ [dq] @ ''/home/u/ding.wav'' @ [dq] @ '' -v 1''"
  by (simp add: legacy_playCommand_def legacy_macPlayCommand_def times_2_half decimal_1 mac_host_def)

text \<open>
  For every path and volume, the script of the spawn-based module is its fixed head,
  the path with every single quote doubled, and its tail; and the scripting host reads
  the literal that starts at the end of the head back as the path, followed by the rest
  of the tail.
\<close>

theorem script_literal_reads_path:
  "windowsPowerShellScript fmt p v = script_head @ replace_quotes p @ script_tail (Number_toString fmt v) \<and>
   read_literal (replace_quotes p @ script_tail (Number_toString fmt v)) =
     Some (p, tl (script_tail (Number_toString fmt v)))"
proof -
  have t: "script_tail s = sq # tl (script_tail s)" for s by (simp add: script_tail_def)
  have h: "tl (script_tail s) = [] \<or> hd (tl (script_tail s)) \<noteq> sq" for s
    by (simp add: script_tail_def sq_def)
  have "read_literal (replace_quotes p @ sq # tl (script_tail (Number_toString fmt v))) =
     Some (p, tl (script_tail (Number_toString fmt v)))"
    using h by (rule read_literal_replace_quotes)
  then show ?thesis using t[of "Number_toString fmt v"] by (simp add: windowsPowerShellScript_def)
qed

text \<open>
  C5. The script of the spawn-based module doubles the single quotes of the path, as the
  theorem above shows for every path. \<^verbatim>\<open>loadAudioFile\<close> of the original module does not: for the path
  \<^verbatim>\<open>it's.wav\<close> its literal ends after \<^verbatim>\<open>it\<close>, where the literal of the doubled path reads
  back as the whole path.
\<close>

theorem legacy_quote_not_doubled:
  "loadAudioFile (''it'' @ [sq] @ ''s.wav'') =
     ''$player.open('' @ [sq] @ ''it'' @ [sq] @ ''s.wav'' @ [sq] @ '');'' \<and>
   read_literal (''it'' @ [sq] @ ''s.wav'' @ [sq] @ '');'') = Some (''it'', ''s.wav'' @ [sq] @ '');'') \<and>
   read_literal (replace_quotes (''it'' @ [sq] @ ''s.wav'') @ [sq] @ '');'') =
     Some (''it'' @ [sq] @ ''s.wav'', '');'')"
  by (simp add: loadAudioFile_def replace_quotes_def sq_def)

subsection \<open>\<^verbatim>\<open>play\<close>\<close>




text \<open>
  C8. In the state \<^verbatim>\<open>play\<close> returns, the registry maps the returned id to the child just
  spawned, and \<^verbatim>\<open>stop\<close> on that id returns \<^verbatim>\<open>true\<close> and kills that child; in both versions
  of \<^verbatim>\<open>play\<close>. (When \<^verbatim>\<open>spawn\<close> throws, \<^verbatim>\<open>play\<close> returns no id.)
\<close>

theorem play_registers_before_return:
  "(play h rnd fp vol w = Inr (pid, w') \<longrightarrow>
      map_of (activeChildren w') pid = Some (length (spawned w)) \<and>
      fst (stop pid w') = True \<and>
      killed (snd (stop pid w')) = killed w @ [length (spawned w)]) \<and>
   (play_finished h rnd fp vol w = Inr ((pid', p), w'') \<longrightarrow>
      map_of (activeChildren w'') pid' = Some (length (spawned w)) \<and>
      fst (stop pid' w'') = True \<and>
      killed (snd (stop pid' w'')) = killed w @ [length (spawned w)])"
proof (intro conjI impI)
  assume "play h rnd fp vol w = Inr (pid, w')"
  from play_Inr[OF this]
  have a: "map_of (activeChildren w') pid = Some (length (spawned w))" and k: "killed w' = killed w"
    by (simp_all add: update_conv')
  show "map_of (activeChildren w') pid = Some (length (spawned w))" by (rule a)
  show "fst (stop pid w') = True" by (simp add: stop_present[OF a])
  show "killed (snd (stop pid w')) = killed w @ [length (spawned w)]"
    using k by (simp add: stop_present[OF a])
next
  assume "play_finished h rnd fp vol w = Inr ((pid', p), w'')"
  from play_finished_Inr[OF this]
  have a: "map_of (activeChildren w'') pid' = Some (length (spawned w))" and k: "killed w'' = killed w"
    by (simp_all add: update_conv')
  show "map_of (activeChildren w'') pid' = Some (length (spawned w))" by (rule a)
  show "fst (stop pid' w'') = True" by (simp add: stop_present[OF a])
  show "killed (snd (stop pid' w'')) = killed w @ [length (spawned w)]"
    using k by (simp add: stop_present[OF a])
qed

theorem play_registers_before_return_witness:
  "play mac_host (0, 0, 0, 0) ''a.wav'' None init =
     Inr (''00000000'', run mac_host [Play (0, 0, 0, 0) ''a.wav'' None] init) \<and>
   map_of (activeChildren (run mac_host [Play (0, 0, 0, 0) ''a.wav'' None] init)) ''00000000'' = Some 0 \<and>
   fst (stop ''00000000'' (run mac_host [Play (0, 0, 0, 0) ''a.wav'' None] init)) = True \<and>
   killed (snd (stop ''00000000'' (run mac_host [Play (0, 0, 0, 0) ''a.wav'' None] init))) = [0] \<and>
   play_finished mac_host (0, 0, 0, 0) ''a.wav'' None init = Inr ((''00000000'', 0), one_finishing) \<and>
   map_of (activeChildren one_finishing) ''00000000'' = Some 0 \<and>
   fst (stop ''00000000'' one_finishing) = True \<and>
   killed (snd (stop ''00000000'' one_finishing)) = [0]"
proof -
  define w where "w = run mac_host [Play (0, 0, 0, 0) ''a.wav'' None] init"
  have p: "play mac_host (0, 0, 0, 0) ''a.wav'' None init = Inr (''00000000'', w)"
    by (simp add: w_def play_cases step_Play mac_host_plays_samples makeId_zero)
  have q: "play_finished mac_host (0, 0, 0, 0) ''a.wav'' None init = Inr ((''00000000'', 0), one_finishing)"
    by (simp add: one_finishing_def play_finished_cases step_PlayFinished mac_host_plays_samples
        makeId_zero init_def)
  have i: "spawned init = []" "killed init = []" by (simp_all add: init_def)
  from play_registers_before_return[of mac_host "(0, 0, 0, 0)" "''a.wav''" None init
      "''00000000''" w "''00000000''" 0 one_finishing] p q
  show ?thesis unfolding w_def[symmetric] by (simp add: i)
qed






subsection \<open>The registry in every run\<close>

text \<open>
  In every state the module reaches from its initial state, by any calls of \<^verbatim>\<open>play\<close>,
  \<^verbatim>\<open>stop\<close> and \<^verbatim>\<open>stopAll\<close> and any events of children, the registry holds no id twice.
\<close>

theorem registry_keys_distinct: "registry_ok (run h acts init)"
proof -
  have "registry_ok w \<Longrightarrow> registry_ok (run h acts w)" for w
    by (induction acts arbitrary: w) (simp_all add: registry_ok_step)
  moreover have "registry_ok init" by (simp add: registry_ok_def init_def)
  ultimately show ?thesis by blast
qed

end
